theory Spec2Isabelle
  imports Main "HOL-Library.Sublist"
begin

section \<open>Strings of the source language\<close>

text \<open>
  A string of the source is a sequence of code units, modelled as a \<^typ>\<open>string\<close>.
  Every operation used by the name provider (\<^verbatim>\<open>replace\<close> with a one-character
  class, \<^verbatim>\<open>startsWith\<close>, \<^verbatim>\<open>slice\<close>, template concatenation) works code unit by
  code unit, and the class \<^verbatim>\<open>\w\<close> of a regular expression without flags holds the
  ASCII letters, the ASCII digits and the underscore only, so a code unit beyond ASCII
  behaves like any other character outside the class.
\<close>

definition isAsciiLetter :: "char \<Rightarrow> bool" where
  "isAsciiLetter c =
     (let n = (of_char c :: nat) in (65 \<le> n \<and> n \<le> 90) \<or> (97 \<le> n \<and> n \<le> 122))"

definition isAsciiDigit :: "char \<Rightarrow> bool" where
  "isAsciiDigit c = (let n = (of_char c :: nat) in 48 \<le> n \<and> n \<le> 57)"

text \<open>The class \<^verbatim>\<open>\w\<close>, that is \<^verbatim>\<open>[A-Za-z0-9_]\<close>.\<close>

definition isWordChar :: "char \<Rightarrow> bool" where
  "isWordChar c = (isAsciiLetter c \<or> isAsciiDigit c \<or> c = CHR ''_'')"

text \<open>
  \<^verbatim>\<open>input.replace(/[^\w]/g, '')\<close>: the global replacement scans the string from left
  to right; a code unit matched by \<^verbatim>\<open>[^\w]\<close> is replaced by the empty string, any
  other code unit is copied.
\<close>

fun replaceNonWord :: "string \<Rightarrow> string" where
  "replaceNonWord [] = []"
| "replaceNonWord (c # cs) =
     (if \<not> isWordChar c then [] @ replaceNonWord cs else c # replaceNonWord cs)"

definition startsWith :: "string \<Rightarrow> string \<Rightarrow> bool" where
  "startsWith s searchString = (take (length searchString) s = searchString)"

definition slice :: "string \<Rightarrow> nat \<Rightarrow> string" where
  "slice s start = drop start s"


text \<open>Truthiness of an optional string: \<^verbatim>\<open>undefined\<close> and \<^verbatim>\<open>''\<close> are falsy.\<close>

definition truthy :: "string option \<Rightarrow> bool" where
  "truthy v = (case v of None \<Rightarrow> False | Some s \<Rightarrow> s \<noteq> [])"


section \<open>Data model\<close>

text \<open>
  \<^verbatim>\<open>{ schema?: string, name: string }\<close>: what the name provider reads of a table, a
  table type or a stored procedure. Records that extend it are accepted wherever it is.
\<close>

record DbObject =
  schema :: "string option"
  name :: string

text \<open>\<^verbatim>\<open>{ name?: string, ordinal: number }\<close>: a column as the name provider reads it.\<close>

record DbColumn =
  name :: "string option"
  ordinal :: nat

record SqlResultSetColumn = DbColumn +
  objectTypeName :: string
  isNullable :: bool

record SqlResultSet =
  columns :: "SqlResultSetColumn list"

record SqlServerStoredProcedure = DbObject +
  resultSets :: "SqlResultSet list option"

record SqlParameter =
  name :: string

record PropertyDefinition =
  name :: string
  typeName :: string
  accessModifier :: string
  isNullable :: "bool option"

record ClassDefinition =
  name :: string
  accessModifier :: string
  properties :: "PropertyDefinition list"


text \<open>
  The name provider as the builder uses it: the builder reads the two properties
  \<^verbatim>\<open>getResultSetClassName\<close> and \<^verbatim>\<open>getResultSetColumnPropertyName\<close> of the
  provider object and calls them. An object that does not define a method has
  \<^verbatim>\<open>undefined\<close> there (\<open>None\<close>), and calling it raises a \<^verbatim>\<open>TypeError\<close>.
\<close>

record ReverseSqlObjectNameProvider =
  getResultSetClassName :: "(SqlServerStoredProcedure \<Rightarrow> string) option"
  getResultSetColumnPropertyName :: "(SqlResultSetColumn \<Rightarrow> string) option"

text \<open>The options of the builder's constructor, each of them optional.\<close>

record ReverseSqlOptions =
  includeSchema :: "bool option"
  objectNameProvider :: "ReverseSqlObjectNameProvider option"

datatype error = TypeError


section \<open>The default object name provider\<close>

record DefaultReverseSqlObjectNameProvider =
  includeSchema :: bool

definition cleanup :: "string \<Rightarrow> string" where
  "cleanup input = (if input = [] then [] else (let result = replaceNonWord input in result))"

definition getStoredProcedureResultSetClassName ::
  "DefaultReverseSqlObjectNameProvider \<Rightarrow> 'a DbObject_scheme \<Rightarrow> string" where
  "getStoredProcedureResultSetClassName this sp =
     (let cleanedUpSpName = cleanup (DbObject.name sp) in
      case schema sp of
        Some s \<Rightarrow>
          if includeSchema this \<and> s \<noteq> [] \<and> s \<noteq> ''dbo'' then
            (let cleanedUpSchemaName = cleanup s
             in cleanedUpSchemaName @ ''_'' @ cleanedUpSpName @ ''Result'')
          else cleanedUpSpName @ ''Result''
      | None \<Rightarrow> cleanedUpSpName @ ''Result'')"

definition getTableClassName ::
  "DefaultReverseSqlObjectNameProvider \<Rightarrow> 'a DbObject_scheme \<Rightarrow> string" where
  "getTableClassName this table =
     (let cleanedUpTableName = cleanup (DbObject.name table) in
      case schema table of
        Some s \<Rightarrow>
          if includeSchema this \<and> s \<noteq> [] \<and> s \<noteq> ''dbo'' then
            (let cleanedUpSchemaName = cleanup s
             in cleanedUpSchemaName @ ''_'' @ cleanedUpTableName)
          else cleanedUpTableName
      | None \<Rightarrow> cleanedUpTableName)"

definition getTableTypeClassName ::
  "DefaultReverseSqlObjectNameProvider \<Rightarrow> 'a DbObject_scheme \<Rightarrow> string" where
  "getTableTypeClassName this tableType =
     (let cleanedUpTableName = cleanup (DbObject.name tableType) in
      case schema tableType of
        Some s \<Rightarrow>
          if includeSchema this \<and> s \<noteq> [] then
            (let cleanedUpSchemaName = cleanup s
             in cleanedUpSchemaName @ ''_'' @ cleanedUpTableName)
          else cleanedUpTableName
      | None \<Rightarrow> cleanedUpTableName)"

definition getResultSetMapperClassName ::
  "DefaultReverseSqlObjectNameProvider \<Rightarrow> string \<Rightarrow> string" where
  "getResultSetMapperClassName this resultSetClassName = resultSetClassName @ ''Mapper''"


text \<open>
  \<^verbatim>\<open>NameUtility.capitalize\<close>, \<^verbatim>\<open>NameUtility.upperToLowerCamelCase\<close> and
  \<^verbatim>\<open>isReservedKeyword\<close> belong to libraries outside the repository; the functions
  that call them take them as parameters.
\<close>

definition getCleanObjectNameWithSchema ::
  "(string \<Rightarrow> string) \<Rightarrow> DefaultReverseSqlObjectNameProvider \<Rightarrow> 'a DbObject_scheme \<Rightarrow> string" where
  "getCleanObjectNameWithSchema capitalize this object =
     (let cleanedUpName = cleanup (DbObject.name object) in
      case schema object of
        Some s \<Rightarrow>
          if includeSchema this \<and> s \<noteq> [] \<and> s \<noteq> ''dbo'' then
            (let cleanedUpSchema = capitalize (cleanup s)
             in cleanedUpSchema @ ''_'' @ cleanedUpName)
          else cleanedUpName
      | None \<Rightarrow> cleanedUpName)"

definition getStoredProcedureMethodName ::
  "(string \<Rightarrow> string) \<Rightarrow> DefaultReverseSqlObjectNameProvider \<Rightarrow> 'a DbObject_scheme \<Rightarrow> string" where
  "getStoredProcedureMethodName capitalize this sp = getCleanObjectNameWithSchema capitalize this sp"

definition getTableInsertMethodName ::
  "(string \<Rightarrow> string) \<Rightarrow> DefaultReverseSqlObjectNameProvider \<Rightarrow> 'a DbObject_scheme \<Rightarrow> string" where
  "getTableInsertMethodName capitalize this table =
     getCleanObjectNameWithSchema capitalize this
       \<lparr>schema = schema table, DbObject.name = ''Insert'' @ capitalize (DbObject.name table)\<rparr>"

definition getTableDeleteMethodName ::
  "(string \<Rightarrow> string) \<Rightarrow> DefaultReverseSqlObjectNameProvider \<Rightarrow> 'a DbObject_scheme \<Rightarrow> string" where
  "getTableDeleteMethodName capitalize this table =
     getCleanObjectNameWithSchema capitalize this
       \<lparr>schema = schema table, DbObject.name = ''Delete'' @ capitalize (DbObject.name table)\<rparr>"

definition getTableUpdateMethodName ::
  "(string \<Rightarrow> string) \<Rightarrow> DefaultReverseSqlObjectNameProvider \<Rightarrow> 'a DbObject_scheme \<Rightarrow> string" where
  "getTableUpdateMethodName capitalize this table =
     getCleanObjectNameWithSchema capitalize this
       \<lparr>schema = schema table, DbObject.name = ''Update'' @ capitalize (DbObject.name table)\<rparr>"

definition getTableSelectByPrimaryKeyMethodName ::
  "(string \<Rightarrow> string) \<Rightarrow> DefaultReverseSqlObjectNameProvider \<Rightarrow> 'a DbObject_scheme \<Rightarrow> string" where
  "getTableSelectByPrimaryKeyMethodName capitalize this table =
     getCleanObjectNameWithSchema capitalize this
       \<lparr>schema = schema table, DbObject.name = ''Select'' @ capitalize (DbObject.name table)\<rparr>"

definition getTableSelectByExpressionMethodName ::
  "(string \<Rightarrow> string) \<Rightarrow> DefaultReverseSqlObjectNameProvider \<Rightarrow> 'a DbObject_scheme \<Rightarrow> string" where
  "getTableSelectByExpressionMethodName capitalize this table =
     getCleanObjectNameWithSchema capitalize this
       \<lparr>schema = schema table,
        DbObject.name = ''Select'' @ capitalize (DbObject.name table) @ ''Where''\<rparr>"

definition getParameterName ::
  "(string \<Rightarrow> string) \<Rightarrow> (string \<Rightarrow> bool) \<Rightarrow> DefaultReverseSqlObjectNameProvider \<Rightarrow>
     'a SqlParameter_scheme \<Rightarrow> string" where
  "getParameterName upperToLowerCamelCase isReservedKeyword this parameter =
     (let nm = (if startsWith (SqlParameter.name parameter) ''@''
                then slice (SqlParameter.name parameter) 1
                else SqlParameter.name parameter);
          nm = cleanup nm;
          nm = upperToLowerCamelCase nm;
          nm = (if isReservedKeyword nm then ''@'' @ nm else nm)
      in nm)"


section \<open>The result-set class builder\<close>

text \<open>
  The default provider seen as the object the builder holds. The class
  \<^verbatim>\<open>DefaultReverseSqlObjectNameProvider\<close> defines
  \<^verbatim>\<open>getStoredProcedureResultSetClassName\<close> and \<^verbatim>\<open>getColumnPropertyName\<close>, and
  no method of the two names the builder calls, whatever its schema option.
\<close>

definition providerObject ::
  "DefaultReverseSqlObjectNameProvider \<Rightarrow> ReverseSqlObjectNameProvider" where
  "providerObject provider =
     \<lparr>getResultSetClassName = None, getResultSetColumnPropertyName = None\<rparr>"

record ResultSetClassBuilder =
  objectNameProvider :: ReverseSqlObjectNameProvider

text \<open>
  The constructor: \<^verbatim>\<open>opts = options || {}\<close>, then the provider of the options or,
  without one, a new default provider made with \<^verbatim>\<open>opts.includeSchema || false\<close>.
\<close>

definition newResultSetClassBuilder :: "ReverseSqlOptions option \<Rightarrow> ResultSetClassBuilder" where
  "newResultSetClassBuilder options =
     (let opts = (case options of
                    None \<Rightarrow> \<lparr>ReverseSqlOptions.includeSchema = None,
                             ReverseSqlOptions.objectNameProvider = None\<rparr>
                  | Some given \<Rightarrow> given)
      in \<lparr>objectNameProvider =
            (case ReverseSqlOptions.objectNameProvider opts of
               Some provider \<Rightarrow> provider
             | None \<Rightarrow>
                 providerObject
                   \<lparr>includeSchema =
                      (case ReverseSqlOptions.includeSchema opts of
                         Some b \<Rightarrow> b
                       | None \<Rightarrow> False)\<rparr>)\<rparr>)"

text \<open>A method call on the provider object: calling \<^verbatim>\<open>undefined\<close> raises.\<close>

definition invoke :: "('a \<Rightarrow> 'b) option \<Rightarrow> 'a \<Rightarrow> error + 'b" where
  "invoke method x = (case method of None \<Rightarrow> Inl TypeError | Some f \<Rightarrow> Inr (f x))"

text \<open>
  \<^verbatim>\<open>xs.forEach(callback)\<close> for a callback that updates the state it closes over:
  the elements are visited in order, and an exception of the callback ends the loop and
  is the outcome of the whole.
\<close>

fun forEach :: "'a list \<Rightarrow> ('s \<Rightarrow> 'a \<Rightarrow> error + 's) \<Rightarrow> 's \<Rightarrow> error + 's" where
  "forEach [] callback s = Inr s"
| "forEach (x # xs) callback s =
     (case callback s x of Inl e \<Rightarrow> Inl e | Inr s' \<Rightarrow> forEach xs callback s')"

text \<open>
  The body of the inner \<^verbatim>\<open>forEach\<close>: one property is made for the column and pushed
  on the properties of the class under construction.
\<close>

definition columnCallback ::
  "ResultSetClassBuilder \<Rightarrow> (string \<Rightarrow> bool) \<Rightarrow> ClassDefinition \<Rightarrow> SqlResultSetColumn \<Rightarrow>
     error + ClassDefinition" where
  "columnCallback this canBeNullable classDefinition col =
     (case invoke (getResultSetColumnPropertyName (objectNameProvider this)) col of
        Inl e \<Rightarrow> Inl e
      | Inr propertyName \<Rightarrow>
          (let property = \<lparr>PropertyDefinition.name = propertyName,
                           typeName = objectTypeName col,
                           PropertyDefinition.accessModifier = ''public'',
                           PropertyDefinition.isNullable = None\<rparr>;
               property = property\<lparr>PropertyDefinition.isNullable :=
                            Some (SqlResultSetColumn.isNullable col \<and>
                                  canBeNullable (objectTypeName col))\<rparr>
           in Inr (classDefinition\<lparr>properties := properties classDefinition @ [property]\<rparr>)))"

text \<open>
  The body of the outer \<^verbatim>\<open>forEach\<close>: a stored procedure whose \<^verbatim>\<open>resultSets\<close> is
  absent or empty is left out before the provider is called; otherwise the class is
  named by the provider, filled from the result set at index 0 and pushed.
\<close>

definition storedProcedureCallback ::
  "ResultSetClassBuilder \<Rightarrow> (string \<Rightarrow> bool) \<Rightarrow> ClassDefinition list \<Rightarrow>
     SqlServerStoredProcedure \<Rightarrow> error + ClassDefinition list" where
  "storedProcedureCallback this canBeNullable classDefinitions sp =
     (case resultSets sp of
        None \<Rightarrow> Inr classDefinitions
      | Some [] \<Rightarrow> Inr classDefinitions
      | Some (rs0 # _) \<Rightarrow>
          (case invoke (getResultSetClassName (objectNameProvider this)) sp of
             Inl e \<Rightarrow> Inl e
           | Inr className \<Rightarrow>
               (let classDefinition = \<lparr>ClassDefinition.name = className,
                                        ClassDefinition.accessModifier = ''public'',
                                        properties = []\<rparr>
                in case forEach (columns rs0) (columnCallback this canBeNullable) classDefinition of
                     Inl e \<Rightarrow> Inl e
                   | Inr classDefinition \<Rightarrow> Inr (classDefinitions @ [classDefinition]))))"

definition buildStoredProcResultSetClasses ::
  "ResultSetClassBuilder \<Rightarrow> (string \<Rightarrow> bool) \<Rightarrow> SqlServerStoredProcedure list \<Rightarrow>
     error + ClassDefinition list" where
  "buildStoredProcResultSetClasses this canBeNullable storedProcedures =
     (let classDefinitions = [] in
      forEach storedProcedures (storedProcedureCallback this canBeNullable) classDefinitions)"


section \<open>Vocabulary of the specification\<close>

text \<open>A stored procedure with a non-empty list of result sets.\<close>

definition hasResultSets :: "SqlServerStoredProcedure \<Rightarrow> bool" where
  "hasResultSets sp = (case resultSets sp of Some (_ # _) \<Rightarrow> True | _ \<Rightarrow> False)"

text \<open>The columns of the first result set (none when there is no result set).\<close>

definition firstResultSetColumns :: "SqlServerStoredProcedure \<Rightarrow> SqlResultSetColumn list" where
  "firstResultSetColumns sp = (case resultSets sp of Some (rs0 # _) \<Rightarrow> columns rs0 | _ \<Rightarrow> [])"

text \<open>The property the specification asks for a column, named by \<open>g\<close>.\<close>

definition specProperty ::
  "(SqlResultSetColumn \<Rightarrow> string) \<Rightarrow> (string \<Rightarrow> bool) \<Rightarrow> SqlResultSetColumn \<Rightarrow>
     PropertyDefinition" where
  "specProperty g canBeNullable col =
     \<lparr>PropertyDefinition.name = g col,
      typeName = objectTypeName col,
      PropertyDefinition.accessModifier = ''public'',
      PropertyDefinition.isNullable =
        Some (SqlResultSetColumn.isNullable col \<and> canBeNullable (objectTypeName col))\<rparr>"

text \<open>
  The class the specification asks for a stored procedure with a result set, named by
  \<open>f\<close>, its properties named by \<open>g\<close>.
\<close>

definition specClass ::
  "(SqlServerStoredProcedure \<Rightarrow> string) \<Rightarrow> (SqlResultSetColumn \<Rightarrow> string) \<Rightarrow>
     (string \<Rightarrow> bool) \<Rightarrow> SqlServerStoredProcedure \<Rightarrow> ClassDefinition" where
  "specClass f g canBeNullable sp =
     \<lparr>ClassDefinition.name = f sp,
      ClassDefinition.accessModifier = ''public'',
      properties = map (specProperty g canBeNullable) (firstResultSetColumns sp)\<rparr>"

text \<open>
  What becomes of one stored procedure that has a result set: its class, or the
  exception of the first provider method that is called and missing.
\<close>

definition classOf ::
  "ResultSetClassBuilder \<Rightarrow> (string \<Rightarrow> bool) \<Rightarrow> SqlServerStoredProcedure \<Rightarrow>
     error + ClassDefinition" where
  "classOf this canBeNullable sp =
     (case getResultSetClassName (objectNameProvider this) of
        None \<Rightarrow> Inl TypeError
      | Some f \<Rightarrow>
          (case getResultSetColumnPropertyName (objectNameProvider this) of
             None \<Rightarrow>
               if firstResultSetColumns sp = []
               then Inr \<lparr>ClassDefinition.name = f sp,
                         ClassDefinition.accessModifier = ''public'', properties = []\<rparr>
               else Inl TypeError
           | Some g \<Rightarrow> Inr (specClass f g canBeNullable sp)))"

text \<open>A stored procedure stripped of every result set after the first.\<close>

definition onlyFirstResultSet :: "SqlServerStoredProcedure \<Rightarrow> SqlServerStoredProcedure" where
  "onlyFirstResultSet sp = sp\<lparr>resultSets := map_option (take 1) (resultSets sp)\<rparr>"

text \<open>
  Stripping a single leading marker character, in the specification's words: the first
  character is dropped when it is the marker, and nothing else is.
\<close>

definition stripMarker :: "string \<Rightarrow> string" where
  "stripMarker s = (case s of [] \<Rightarrow> [] | c # rest \<Rightarrow> if c = CHR ''@'' then rest else s)"

text \<open>
  A letter, in the specification's words, as the identifiers of the database and of the
  target language understand it: among the code units up to 255, the ASCII letters and
  the letters of Latin-1 (feminine and masculine ordinal indicator, micro sign,
  \<open>0xC0\<close> to \<open>0xFF\<close> without the multiplication and the division sign).
\<close>

definition specLetter :: "char \<Rightarrow> bool" where
  "specLetter c =
     (let n = (of_char c :: nat) in
        (65 \<le> n \<and> n \<le> 90) \<or> (97 \<le> n \<and> n \<le> 122) \<or> n = 170 \<or> n = 181 \<or> n = 186 \<or>
        (192 \<le> n \<and> n \<le> 214) \<or> (216 \<le> n \<and> n \<le> 246) \<or> (248 \<le> n \<and> n \<le> 255))"

text \<open>The characters that \<^verbatim>\<open>cleanup\<close> keeps, written out.\<close>

definition asciiWordChars :: string where
  "asciiWordChars =
     ''ABCDEFGHIJKLMNOPQRSTUVWXYZabcdefghijklmnopqrstuvwxyz0123456789_''"


section \<open>Example inputs\<close>

text \<open>
  A builder made with a custom name provider that has both methods the builder calls,
  as the options of the constructor allow.
\<close>

definition exampleBuilder :: ResultSetClassBuilder where
  "exampleBuilder =
     newResultSetClassBuilder
       (Some \<lparr>ReverseSqlOptions.includeSchema = None,
              ReverseSqlOptions.objectNameProvider =
                Some \<lparr>getResultSetClassName = Some (\<lambda>sp. DbObject.name sp @ ''Result''),
                      getResultSetColumnPropertyName =
                        Some (\<lambda>col. case DbColumn.name col of
                                      Some n \<Rightarrow> n
                                    | None \<Rightarrow> ''Column'')\<rparr>\<rparr>)"

text \<open>A nullability predicate that accepts the value type \<^verbatim>\<open>int\<close> only.\<close>

definition exampleCanBeNullable :: "string \<Rightarrow> bool" where
  "exampleCanBeNullable t = (t = ''int'')"

definition colId :: SqlResultSetColumn where
  "colId = \<lparr>DbColumn.name = Some ''Id'', ordinal = 0, objectTypeName = ''int'',
            SqlResultSetColumn.isNullable = True\<rparr>"

definition colTitle :: SqlResultSetColumn where
  "colTitle = \<lparr>DbColumn.name = Some ''Title'', ordinal = 1, objectTypeName = ''string'',
               SqlResultSetColumn.isNullable = True\<rparr>"

definition colCount :: SqlResultSetColumn where
  "colCount = \<lparr>DbColumn.name = Some ''Count'', ordinal = 0, objectTypeName = ''int'',
               SqlResultSetColumn.isNullable = False\<rparr>"

text \<open>Two result sets: only the first one is described.\<close>

definition spGetOrders :: SqlServerStoredProcedure where
  "spGetOrders =
     \<lparr>schema = Some ''sales'', DbObject.name = ''GetOrders'',
      resultSets = Some [\<lparr>columns = [colId, colTitle]\<rparr>, \<lparr>columns = [colCount]\<rparr>]\<rparr>"

definition spTouch :: SqlServerStoredProcedure where
  "spTouch = \<lparr>schema = Some ''dbo'', DbObject.name = ''Touch'', resultSets = None\<rparr>"

definition spPurge :: SqlServerStoredProcedure where
  "spPurge = \<lparr>schema = Some ''dbo'', DbObject.name = ''Purge'', resultSets = Some []\<rparr>"

definition spCountOrders :: SqlServerStoredProcedure where
  "spCountOrders =
     \<lparr>schema = Some ''dbo'', DbObject.name = ''CountOrders'',
      resultSets = Some [\<lparr>columns = [colCount]\<rparr>]\<rparr>"

definition exampleProcedures :: "SqlServerStoredProcedure list" where
  "exampleProcedures = [spTouch, spGetOrders, spPurge, spCountOrders]"

text \<open>The classes the example builder returns for the example procedures.\<close>

definition exampleClasses :: "ClassDefinition list" where
  "exampleClasses =
     [\<lparr>ClassDefinition.name = ''GetOrdersResult'',
       ClassDefinition.accessModifier = ''public'',
       properties =
         [\<lparr>PropertyDefinition.name = ''Id'', typeName = ''int'',
           PropertyDefinition.accessModifier = ''public'',
           PropertyDefinition.isNullable = Some True\<rparr>,
          \<lparr>PropertyDefinition.name = ''Title'', typeName = ''string'',
           PropertyDefinition.accessModifier = ''public'',
           PropertyDefinition.isNullable = Some False\<rparr>]\<rparr>,
      \<lparr>ClassDefinition.name = ''CountOrdersResult'',
       ClassDefinition.accessModifier = ''public'',
       properties =
         [\<lparr>PropertyDefinition.name = ''Count'', typeName = ''int'',
           PropertyDefinition.accessModifier = ''public'',
           PropertyDefinition.isNullable = Some False\<rparr>]\<rparr>]"

text \<open>The word \<^verbatim>\<open>caf\<close> followed by the code unit \<open>0xE9\<close>, e with acute accent.\<close>

definition cafe :: string where
  "cafe = [CHR ''c'', CHR ''a'', CHR ''f'', CHR 0xE9]"


section \<open>Auxiliary facts\<close>


lemmas example_defs = exampleBuilder_def exampleCanBeNullable_def colId_def colTitle_def
  colCount_def spGetOrders_def spTouch_def spPurge_def spCountOrders_def exampleProcedures_def
  exampleClasses_def

lemmas builder_defs = buildStoredProcResultSetClasses_def storedProcedureCallback_def
  columnCallback_def invoke_def newResultSetClassBuilder_def providerObject_def

lemmas wordChar_defs = isWordChar_def isAsciiLetter_def isAsciiDigit_def

subsection \<open>Cleanup is a filter\<close>

lemma replaceNonWord_filter: "replaceNonWord s = filter isWordChar s"
  by (induction s) simp_all

lemma cleanup_filter: "cleanup s = filter isWordChar s"
  by (simp add: cleanup_def replaceNonWord_filter)

text \<open>The class of the regular expression is the written-out character set.\<close>

lemma isWordChar_explicit: "isWordChar c \<longleftrightarrow> c \<in> set asciiWordChars"
proof (cases c)
  case (Char b0 b1 b2 b3 b4 b5 b6 b7)
  show ?thesis
    unfolding Char
    by (cases b0; cases b1; cases b2; cases b3; cases b4; cases b5; cases b6; cases b7;
        simp add: wordChar_defs asciiWordChars_def)
qed

subsection \<open>What each naming function does with the schema\<close>

lemma getTableClassName_unqualified:
  "\<not> includeSchema this \<or> \<not> truthy (schema t) \<or> schema t = Some ''dbo'' \<Longrightarrow>
     getTableClassName this t = cleanup (DbObject.name t)"
  by (auto simp: getTableClassName_def truthy_def split: option.splits)

lemma getTableClassName_qualified:
  "includeSchema this \<Longrightarrow> schema t = Some s \<Longrightarrow> s \<noteq> [] \<Longrightarrow> s \<noteq> ''dbo'' \<Longrightarrow>
     getTableClassName this t = cleanup s @ ''_'' @ cleanup (DbObject.name t)"
  by (simp add: getTableClassName_def)

lemma getStoredProcedureResultSetClassName_unqualified:
  "\<not> includeSchema this \<or> \<not> truthy (schema sp) \<or> schema sp = Some ''dbo'' \<Longrightarrow>
     getStoredProcedureResultSetClassName this sp = cleanup (DbObject.name sp) @ ''Result''"
  by (auto simp: getStoredProcedureResultSetClassName_def truthy_def split: option.splits)

lemma getStoredProcedureResultSetClassName_qualified:
  "includeSchema this \<Longrightarrow> schema sp = Some s \<Longrightarrow> s \<noteq> [] \<Longrightarrow> s \<noteq> ''dbo'' \<Longrightarrow>
     getStoredProcedureResultSetClassName this sp =
       cleanup s @ ''_'' @ cleanup (DbObject.name sp) @ ''Result''"
  by (simp add: getStoredProcedureResultSetClassName_def)

lemma getCleanObjectNameWithSchema_unqualified:
  "\<not> includeSchema this \<or> \<not> truthy (schema obj) \<or> schema obj = Some ''dbo'' \<Longrightarrow>
     getCleanObjectNameWithSchema capitalize this obj = cleanup (DbObject.name obj)"
  by (auto simp: getCleanObjectNameWithSchema_def truthy_def split: option.splits)

lemma getCleanObjectNameWithSchema_qualified:
  "includeSchema this \<Longrightarrow> schema obj = Some s \<Longrightarrow> s \<noteq> [] \<Longrightarrow> s \<noteq> ''dbo'' \<Longrightarrow>
     getCleanObjectNameWithSchema capitalize this obj =
       capitalize (cleanup s) @ ''_'' @ cleanup (DbObject.name obj)"
  by (simp add: getCleanObjectNameWithSchema_def)

lemma getTableTypeClassName_unqualified:
  "\<not> includeSchema this \<or> \<not> truthy (schema t) \<Longrightarrow>
     getTableTypeClassName this t = cleanup (DbObject.name t)"
  by (auto simp: getTableTypeClassName_def truthy_def split: option.splits)

lemma getTableTypeClassName_qualified:
  "includeSchema this \<Longrightarrow> schema t = Some s \<Longrightarrow> s \<noteq> [] \<Longrightarrow>
     getTableTypeClassName this t = cleanup s @ ''_'' @ cleanup (DbObject.name t)"
  by (simp add: getTableTypeClassName_def)

subsection \<open>The two loops of the builder\<close>

lemma forEach_columnCallback:
  "forEach cols (columnCallback this cbn) cd =
     (case getResultSetColumnPropertyName (objectNameProvider this) of
        None \<Rightarrow> if cols = [] then Inr cd else Inl TypeError
      | Some g \<Rightarrow> Inr (cd\<lparr>properties := properties cd @ map (specProperty g cbn) cols\<rparr>))"
  by (induction cols arbitrary: cd)
     (simp_all add: columnCallback_def invoke_def specProperty_def split: option.splits)

lemma storedProcedureCallback_classOf:
  "storedProcedureCallback this cbn cds sp =
     (if hasResultSets sp
      then (case classOf this cbn sp of Inl e \<Rightarrow> Inl e | Inr cd \<Rightarrow> Inr (cds @ [cd]))
      else Inr cds)"
  by (simp add: storedProcedureCallback_def hasResultSets_def classOf_def specClass_def
      firstResultSetColumns_def forEach_columnCallback invoke_def
      split: option.splits list.splits)

lemma forEach_storedProcedureCallback_Inr:
  "forEach sps (storedProcedureCallback this cbn) acc = Inr cds \<Longrightarrow>
     \<exists>new. cds = acc @ new \<and>
       list_all2 (\<lambda>sp cd. classOf this cbn sp = Inr cd) (filter hasResultSets sps) new"
proof (induction sps arbitrary: acc)
  case Nil
  then show ?case by simp
next
  case (Cons sp sps)
  note step = storedProcedureCallback_classOf [of this cbn acc sp]
  show ?case
  proof (cases "hasResultSets sp")
    case False
    with step have "storedProcedureCallback this cbn acc sp = Inr acc" by simp
    with Cons.prems have "forEach sps (storedProcedureCallback this cbn) acc = Inr cds"
      by simp
    from Cons.IH [OF this] False show ?thesis by simp
  next
    case True
    show ?thesis
    proof (cases "classOf this cbn sp")
      case (Inl e)
      with step True have "storedProcedureCallback this cbn acc sp = Inl e" by simp
      with Cons.prems show ?thesis by simp
    next
      case (Inr cd)
      with step True have "storedProcedureCallback this cbn acc sp = Inr (acc @ [cd])"
        by simp
      with Cons.prems
      have "forEach sps (storedProcedureCallback this cbn) (acc @ [cd]) = Inr cds"
        by simp
      from Cons.IH [OF this] obtain new where
        "cds = (acc @ [cd]) @ new"
        "list_all2 (\<lambda>sp cd. classOf this cbn sp = Inr cd) (filter hasResultSets sps) new"
        by blast
      with Inr True show ?thesis by (intro exI [of _ "cd # new"]) simp
    qed
  qed
qed

lemma buildStoredProcResultSetClasses_Inr:
  "buildStoredProcResultSetClasses this cbn sps = Inr cds \<Longrightarrow>
     list_all2 (\<lambda>sp cd. classOf this cbn sp = Inr cd) (filter hasResultSets sps) cds"
  using forEach_storedProcedureCallback_Inr [of sps this cbn "[]" cds]
  by (simp add: buildStoredProcResultSetClasses_def)

lemma forEach_storedProcedureCallback_methods:
  assumes "getResultSetClassName (objectNameProvider this) = Some f"
    and "getResultSetColumnPropertyName (objectNameProvider this) = Some g"
  shows "forEach sps (storedProcedureCallback this cbn) acc =
           Inr (acc @ map (specClass f g cbn) (filter hasResultSets sps))"
proof (induction sps arbitrary: acc)
  case Nil
  show ?case by simp
next
  case (Cons sp sps)
  from assms storedProcedureCallback_classOf [of this cbn acc sp]
  have "storedProcedureCallback this cbn acc sp =
          (if hasResultSets sp then Inr (acc @ [specClass f g cbn sp]) else Inr acc)"
    by (simp add: classOf_def)
  with Cons.IH show ?case by simp
qed

lemma buildStoredProcResultSetClasses_methods:
  "getResultSetClassName (objectNameProvider this) = Some f \<Longrightarrow>
   getResultSetColumnPropertyName (objectNameProvider this) = Some g \<Longrightarrow>
     buildStoredProcResultSetClasses this cbn sps =
       Inr (map (specClass f g cbn) (filter hasResultSets sps))"
  by (simp add: buildStoredProcResultSetClasses_def forEach_storedProcedureCallback_methods)

lemma forEach_storedProcedureCallback_no_class_method:
  assumes "getResultSetClassName (objectNameProvider this) = None"
  shows "forEach sps (storedProcedureCallback this cbn) acc =
           (if filter hasResultSets sps = [] then Inr acc else Inl TypeError)"
proof (induction sps arbitrary: acc)
  case Nil
  show ?case by simp
next
  case (Cons sp sps)
  from assms storedProcedureCallback_classOf [of this cbn acc sp]
  have "storedProcedureCallback this cbn acc sp =
          (if hasResultSets sp then Inl TypeError else Inr acc)"
    by (simp add: classOf_def)
  with Cons.IH show ?case by simp
qed

lemma default_builder_outcome:
  "ReverseSqlOptions.objectNameProvider opts = None \<Longrightarrow>
     buildStoredProcResultSetClasses (newResultSetClassBuilder (Some opts)) cbn sps =
       (if filter hasResultSets sps = [] then Inr [] else Inl TypeError)"
  "buildStoredProcResultSetClasses (newResultSetClassBuilder None) cbn sps =
       (if filter hasResultSets sps = [] then Inr [] else Inl TypeError)"
  by (simp_all add: buildStoredProcResultSetClasses_def newResultSetClassBuilder_def
      providerObject_def forEach_storedProcedureCallback_no_class_method)

lemma hasResultSets_iff:
  "hasResultSets sp \<longleftrightarrow> resultSets sp \<noteq> None \<and> resultSets sp \<noteq> Some []"
  by (simp add: hasResultSets_def split: option.splits list.splits)

lemma hasResultSets_onlyFirst [simp]:
  "hasResultSets (onlyFirstResultSet sp) = hasResultSets sp"
  by (simp add: hasResultSets_def onlyFirstResultSet_def split: option.splits list.splits)

lemma firstResultSetColumns_onlyFirst [simp]:
  "firstResultSetColumns (onlyFirstResultSet sp) = firstResultSetColumns sp"
  by (simp add: firstResultSetColumns_def onlyFirstResultSet_def
      split: option.splits list.splits)

lemma classOf_onlyFirst:
  "map_sum id properties (classOf this cbn (onlyFirstResultSet sp)) =
   map_sum id properties (classOf this cbn sp)"
  by (simp add: classOf_def specClass_def split: option.splits)

lemma forEach_onlyFirst:
  "map properties acc1 = map properties acc2 \<Longrightarrow>
     map_sum id (map properties)
       (forEach (map onlyFirstResultSet sps) (storedProcedureCallback this cbn) acc1) =
     map_sum id (map properties) (forEach sps (storedProcedureCallback this cbn) acc2)"
proof (induction sps arbitrary: acc1 acc2)
  case Nil
  then show ?case by simp
next
  case (Cons sp sps)
  note step1 = storedProcedureCallback_classOf [of this cbn acc1 "onlyFirstResultSet sp"]
  note step2 = storedProcedureCallback_classOf [of this cbn acc2 sp]
  show ?case
  proof (cases "hasResultSets sp")
    case False
    with step1 step2
    have "storedProcedureCallback this cbn acc1 (onlyFirstResultSet sp) = Inr acc1"
      and "storedProcedureCallback this cbn acc2 sp = Inr acc2"
      by simp_all
    with Cons.IH [OF Cons.prems] show ?thesis by simp
  next
    case True
    show ?thesis
    proof (cases "classOf this cbn sp")
      case (Inl e)
      with classOf_onlyFirst [of this cbn sp]
      have "classOf this cbn (onlyFirstResultSet sp) = Inl e"
        by (cases "classOf this cbn (onlyFirstResultSet sp)") simp_all
      with Inl True step1 step2
      have "storedProcedureCallback this cbn acc1 (onlyFirstResultSet sp) = Inl e"
        and "storedProcedureCallback this cbn acc2 sp = Inl e"
        by simp_all
      then show ?thesis by simp
    next
      case (Inr cd)
      with classOf_onlyFirst [of this cbn sp]
      obtain cd' where cd': "classOf this cbn (onlyFirstResultSet sp) = Inr cd'"
        and eq: "properties cd' = properties cd"
        by (cases "classOf this cbn (onlyFirstResultSet sp)") simp_all
      from Cons.prems eq
      have "map properties (acc1 @ [cd']) = map properties (acc2 @ [cd])" by simp
      note IH = Cons.IH [OF this]
      from Inr cd' True step1 step2
      have "storedProcedureCallback this cbn acc1 (onlyFirstResultSet sp) = Inr (acc1 @ [cd'])"
        and "storedProcedureCallback this cbn acc2 sp = Inr (acc2 @ [cd])"
        by simp_all
      with IH show ?thesis by simp
    qed
  qed
qed

lemma buildStoredProcResultSetClasses_onlyFirst:
  "map_sum id (map properties)
     (buildStoredProcResultSetClasses this cbn (map onlyFirstResultSet sps)) =
   map_sum id (map properties) (buildStoredProcResultSetClasses this cbn sps)"
  by (simp add: buildStoredProcResultSetClasses_def forEach_onlyFirst)

lemma classOf_Inr_properties:
  "classOf this cbn sp = Inr cd \<Longrightarrow>
     list_all2
       (\<lambda>col p.
          map_option (\<lambda>g. g col) (getResultSetColumnPropertyName (objectNameProvider this)) =
            Some (PropertyDefinition.name p) \<and>
          typeName p = objectTypeName col \<and>
          PropertyDefinition.accessModifier p = ''public'' \<and>
          PropertyDefinition.isNullable p =
            Some (SqlResultSetColumn.isNullable col \<and> cbn (objectTypeName col)))
       (firstResultSetColumns sp) (properties cd)"
  by (auto simp: classOf_def specClass_def specProperty_def list_all2_map2 list_all2_same
      split: option.splits if_splits)

lemma classOf_Inr_name:
  "classOf this cbn sp = Inr cd \<Longrightarrow>
     map_option (\<lambda>f. f sp) (getResultSetClassName (objectNameProvider this)) =
       Some (ClassDefinition.name cd)"
  by (auto simp: classOf_def specClass_def split: option.splits if_splits)


section \<open>The claims\<close>

text \<open>
  C1: whenever \<^verbatim>\<open>buildStoredProcResultSetClasses\<close> returns, for every stored
  procedure that has a result set and every column of its first result set, the nullable
  flag of the property made for the column is set, and it is true exactly when the column
  is nullable and \<^verbatim>\<open>canBeNullable\<close> holds of the column's type name. The classes are
  matched with the stored procedures that have a result set, and the properties with the
  columns, position by position.
\<close>

theorem property_nullable_flag:
  "buildStoredProcResultSetClasses this canBeNullable sps = Inr cds \<Longrightarrow>
   list_all2
     (\<lambda>sp cd. list_all2
        (\<lambda>col p. PropertyDefinition.isNullable p =
                   Some (SqlResultSetColumn.isNullable col \<and> canBeNullable (objectTypeName col)))
        (firstResultSetColumns sp) (properties cd))
     (filter hasResultSets sps) cds"
proof -
  assume "buildStoredProcResultSetClasses this canBeNullable sps = Inr cds"
  then have "list_all2 (\<lambda>sp cd. classOf this canBeNullable sp = Inr cd)
               (filter hasResultSets sps) cds"
    by (rule buildStoredProcResultSetClasses_Inr)
  then show ?thesis
  proof (rule list_all2_mono)
    fix sp cd
    assume "classOf this canBeNullable sp = Inr cd"
    from classOf_Inr_properties [OF this]
    show "list_all2
        (\<lambda>col p. PropertyDefinition.isNullable p =
                   Some (SqlResultSetColumn.isNullable col \<and> canBeNullable (objectTypeName col)))
        (firstResultSetColumns sp) (properties cd)"
      by (rule list_all2_mono) simp
  qed
qed

theorem property_nullable_flag_witness:
  "buildStoredProcResultSetClasses exampleBuilder exampleCanBeNullable exampleProcedures =
     Inr exampleClasses \<and>
   list_all2
     (\<lambda>sp cd. list_all2
        (\<lambda>col p. PropertyDefinition.isNullable p =
                   Some (SqlResultSetColumn.isNullable col \<and>
                         exampleCanBeNullable (objectTypeName col)))
        (firstResultSetColumns sp) (properties cd))
     (filter hasResultSets exampleProcedures) exampleClasses \<and>
   map (map PropertyDefinition.isNullable \<circ> properties) exampleClasses =
     [[Some True, Some False], [Some False]]"
proof -
  have returns:
    "buildStoredProcResultSetClasses exampleBuilder exampleCanBeNullable exampleProcedures =
       Inr exampleClasses"
    by (simp add: example_defs builder_defs)
  have flags: "map (map PropertyDefinition.isNullable \<circ> properties) exampleClasses =
     [[Some True, Some False], [Some False]]"
    by (simp add: exampleClasses_def)
  from returns property_nullable_flag [OF returns] flags show ?thesis by simp
qed

text \<open>
  C2 (the code differs): with \<^verbatim>\<open>includeSchema\<close> set, the table \<^verbatim>\<open>sales.Orders\<close>
  gets the class name \<^verbatim>\<open>sales_Orders\<close> and the stored procedure
  \<^verbatim>\<open>sales.GetOrders\<close> the result-set class name \<^verbatim>\<open>sales_GetOrdersResult\<close>: the
  schema prefix is cleaned but keeps its case. The method name of the same stored
  procedure, made by \<^verbatim>\<open>getCleanObjectNameWithSchema\<close>, has the capitalized prefix.
\<close>

theorem class_names_keep_schema_case:
  "getTableClassName \<lparr>includeSchema = True\<rparr>
     \<lparr>schema = Some ''sales'', DbObject.name = ''Orders''\<rparr> = ''sales_Orders'' \<and>
   getStoredProcedureResultSetClassName \<lparr>includeSchema = True\<rparr>
     \<lparr>schema = Some ''sales'', DbObject.name = ''GetOrders''\<rparr> = ''sales_GetOrdersResult'' \<and>
   getStoredProcedureMethodName capitalize \<lparr>includeSchema = True\<rparr>
     \<lparr>schema = Some ''sales'', DbObject.name = ''GetOrders''\<rparr> =
     capitalize ''sales'' @ ''_GetOrders''"
  by (simp add: getTableClassName_def getStoredProcedureResultSetClassName_def
      getStoredProcedureMethodName_def getCleanObjectNameWithSchema_def cleanup_filter
      wordChar_defs)

text \<open>
  C3 (the code differs): with \<^verbatim>\<open>includeSchema\<close> set, the table type
  \<^verbatim>\<open>dbo.OrderList\<close> gets the class name \<^verbatim>\<open>dbo_OrderList\<close>, with the prefix of the
  default schema, where a table of the same schema and name gets \<^verbatim>\<open>OrderList\<close>.
\<close>

theorem table_type_keeps_dbo_prefix:
  "getTableTypeClassName \<lparr>includeSchema = True\<rparr>
     \<lparr>schema = Some ''dbo'', DbObject.name = ''OrderList''\<rparr> = ''dbo_OrderList'' \<and>
   getTableClassName \<lparr>includeSchema = True\<rparr>
     \<lparr>schema = Some ''dbo'', DbObject.name = ''OrderList''\<rparr> = ''OrderList''"
  by (simp add: getTableTypeClassName_def getTableClassName_def cleanup_filter wordChar_defs)

text \<open>
  C4 (the code differs): the builder that the constructor makes without options holds
  the default name provider, which has no method \<^verbatim>\<open>getResultSetClassName\<close>; given
  one stored procedure with a result set it raises a \<^verbatim>\<open>TypeError\<close> and returns no
  class. Stored procedures whose list of result sets is absent or empty are left out
  without an exception.
\<close>

theorem default_builder_raises_TypeError:
  "buildStoredProcResultSetClasses (newResultSetClassBuilder None) canBeNullable
     [spCountOrders] = Inl TypeError \<and>
   buildStoredProcResultSetClasses (newResultSetClassBuilder None) canBeNullable
     [spTouch, spPurge] = Inr []"
  by (simp add: example_defs builder_defs)

text \<open>
  C5: whenever \<^verbatim>\<open>buildStoredProcResultSetClasses\<close> returns, for every stored
  procedure with a result set the class has one property per column of the first result
  set, in the order of the columns (each property is named by the provider's method for
  its column and has its column's type name), and the later result sets contribute
  nothing: with them dropped from every stored procedure the builder returns as well,
  with the same property lists.
\<close>

theorem properties_from_first_result_set:
  "buildStoredProcResultSetClasses this canBeNullable sps = Inr cds \<Longrightarrow>
   list_all2
     (\<lambda>sp cd. list_all2
        (\<lambda>col p.
           map_option (\<lambda>g. g col) (getResultSetColumnPropertyName (objectNameProvider this)) =
             Some (PropertyDefinition.name p) \<and>
           typeName p = objectTypeName col)
        (firstResultSetColumns sp) (properties cd))
     (filter hasResultSets sps) cds \<and>
   map_sum id (map properties)
     (buildStoredProcResultSetClasses this canBeNullable (map onlyFirstResultSet sps)) =
   Inr (map properties cds)"
proof -
  assume ret: "buildStoredProcResultSetClasses this canBeNullable sps = Inr cds"
  then have "list_all2 (\<lambda>sp cd. classOf this canBeNullable sp = Inr cd)
               (filter hasResultSets sps) cds"
    by (rule buildStoredProcResultSetClasses_Inr)
  then have "list_all2
     (\<lambda>sp cd. list_all2
        (\<lambda>col p.
           map_option (\<lambda>g. g col) (getResultSetColumnPropertyName (objectNameProvider this)) =
             Some (PropertyDefinition.name p) \<and>
           typeName p = objectTypeName col)
        (firstResultSetColumns sp) (properties cd))
     (filter hasResultSets sps) cds"
  proof (rule list_all2_mono)
    fix sp cd
    assume "classOf this canBeNullable sp = Inr cd"
    from classOf_Inr_properties [OF this]
    show "list_all2
        (\<lambda>col p.
           map_option (\<lambda>g. g col) (getResultSetColumnPropertyName (objectNameProvider this)) =
             Some (PropertyDefinition.name p) \<and>
           typeName p = objectTypeName col)
        (firstResultSetColumns sp) (properties cd)"
      by (rule list_all2_mono) simp
  qed
  moreover from ret buildStoredProcResultSetClasses_onlyFirst [of this canBeNullable sps]
  have "map_sum id (map properties)
     (buildStoredProcResultSetClasses this canBeNullable (map onlyFirstResultSet sps)) =
   Inr (map properties cds)" by simp
  ultimately show ?thesis by simp
qed

theorem properties_from_first_result_set_witness:
  "buildStoredProcResultSetClasses exampleBuilder exampleCanBeNullable exampleProcedures =
     Inr exampleClasses \<and>
   map_sum id (map properties)
     (buildStoredProcResultSetClasses exampleBuilder exampleCanBeNullable
        (map onlyFirstResultSet exampleProcedures)) =
     Inr (map properties exampleClasses) \<and>
   map (map PropertyDefinition.name \<circ> properties) exampleClasses =
     [[''Id'', ''Title''], [''Count'']]"
proof -
  have returns:
    "buildStoredProcResultSetClasses exampleBuilder exampleCanBeNullable exampleProcedures =
       Inr exampleClasses"
    by (simp add: example_defs builder_defs)
  have names: "map (map PropertyDefinition.name \<circ> properties) exampleClasses =
     [[''Id'', ''Title''], [''Count'']]"
    by (simp add: exampleClasses_def)
  from returns properties_from_first_result_set [OF returns] names show ?thesis by simp
qed

text \<open>
  C6: \<^verbatim>\<open>getParameterName\<close> strips one leading \<^verbatim>\<open>@\<close> from the parameter's name,
  cleans the rest up, converts it to lower camel case and, exactly when the result is a
  reserved keyword, puts \<^verbatim>\<open>@\<close> in front of it. So \<^verbatim>\<open>@customerId\<close>, whose
  lower-camel form is itself, gives \<^verbatim>\<open>customerId\<close>, or \<^verbatim>\<open>@customerId\<close> if that
  is reserved.
\<close>

theorem getParameterName_pipeline:
  "getParameterName upperToLowerCamelCase isReservedKeyword this p =
     (let n = upperToLowerCamelCase (cleanup (stripMarker (SqlParameter.name p)))
      in if isReservedKeyword n then CHR ''@'' # n else n) \<and>
   (upperToLowerCamelCase ''customerId'' = ''customerId'' \<longrightarrow>
      getParameterName upperToLowerCamelCase isReservedKeyword this
        \<lparr>SqlParameter.name = ''@customerId''\<rparr> =
        (if isReservedKeyword ''customerId'' then ''@customerId'' else ''customerId''))"
  by (cases "SqlParameter.name p")
     (simp_all add: getParameterName_def stripMarker_def startsWith_def slice_def Let_def
        cleanup_filter wordChar_defs)

theorem getParameterName_pipeline_witness:
  "getParameterName (\<lambda>s. s) (\<lambda>s. s = ''class'') \<lparr>includeSchema = False\<rparr>
     \<lparr>SqlParameter.name = ''@customerId''\<rparr> = ''customerId'' \<and>
   getParameterName (\<lambda>s. s) (\<lambda>s. s = ''class'') \<lparr>includeSchema = False\<rparr>
     \<lparr>SqlParameter.name = ''@class''\<rparr> = ''@class''"
  using getParameterName_pipeline [of "\<lambda>s. s" "\<lambda>s. s = ''class''" "\<lparr>includeSchema = False\<rparr>"
      "\<lparr>SqlParameter.name = ''@class''\<rparr>"]
  by (simp add: stripMarker_def cleanup_filter wordChar_defs)

text \<open>C7: \<^verbatim>\<open>cleanup\<close> is idempotent on every string.\<close>

theorem cleanup_idempotent: "cleanup (cleanup s) = cleanup s"
  by (simp add: cleanup_filter)

text \<open>
  C8 (counterexample): e with acute accent is a letter, and \<^verbatim>\<open>cleanup\<close> removes it:
  a character inside the letter/digit/underscore set is not kept.
\<close>

theorem cleanup_removes_letter_counterexample:
  "specLetter (CHR 0xE9) \<and> CHR 0xE9 \<in> set cafe \<and> cleanup cafe = ''caf''"
  by (simp add: cafe_def specLetter_def cleanup_filter wordChar_defs)

text \<open>
  C8 (amended): \<^verbatim>\<open>cleanup\<close> keeps exactly the characters of the input that are ASCII
  letters, ASCII digits or the underscore (the set \<^verbatim>\<open>[A-Za-z0-9_]\<close>, written out in
  \<^const>\<open>asciiWordChars\<close>), each occurrence of them, in the order of the input, and
  removes every other character.
\<close>

theorem cleanup_keeps_exactly_ascii_word_chars:
  "cleanup s = filter (\<lambda>c. c \<in> set asciiWordChars) s \<and> subseq (cleanup s) s"
  by (simp add: cleanup_filter isWordChar_explicit [abs_def])



text \<open>
  C10: for every string, legal identifier or not, and whatever the provider's schema
  option, \<^verbatim>\<open>getResultSetMapperClassName\<close> returns the string followed by
  \<^verbatim>\<open>Mapper\<close>, unchanged otherwise.
\<close>

theorem getResultSetMapperClassName_appends_Mapper:
  "getResultSetMapperClassName this r = r @ ''Mapper''"
  by (simp add: getResultSetMapperClassName_def)

end
